theory Spec2Isabelle
  imports Main
begin

section \<open>Data model\<close>

text \<open>
  The repository holds two variants of the tool \<open>fetch-github-pr\<close>: the one of
  \<open>my-mcp-server/index.ts\<close> (called the basic variant below) and the one of the server
  \<open>github-pr-readiness\<close> (called the dashboard variant below), whose output feeds the
  dashboard widget of \<open>resources/pr-readiness.tsx\<close>.  Both compute a status and a list of
  issues from the JSON answers of the platform.  The model starts where the answers have
  been received: a snapshot holds the fields of the answers that the status calculation
  reads.
\<close>

datatype status = Ready | Pending | NotReady

text \<open>A review; only \<open>r.state\<close> is read.\<close>

record review =
  review_user :: string
  review_state :: string

text \<open>
  A check run of the platform.  The three fields are read through \<open>any\<close>, so each may be
  absent or null (\<open>None\<close>).
\<close>

record check_run =
  run_name :: "string option"
  run_status :: "string option"
  run_conclusion :: "string option"

text \<open>
  The fields of \<open>prData\<close> that the calculation reads.  \<open>draft\<close> is the truthiness of
  \<open>prData.draft\<close>; \<open>mergeable\<close> is \<open>None\<close> when the platform answers null or omits the
  field; \<open>requested_reviewers\<close> is \<open>None\<close> when the field is absent (the source reads it
  with \<open>?.\<close>), otherwise the logins.
\<close>

record pr_data =
  draft :: bool
  mergeable :: "bool option"
  requested_reviewers :: "string list option"

record snapshot =
  prData :: pr_data
  reviews :: "review list"
  check_runs :: "check_run list"

text \<open>The normalised check of the dashboard variant and of the widget.\<close>

datatype check_state = CSuccess | CFailure | CPending | CError

record check =
  check_name :: string
  check_state :: check_state

text \<open>
  The two variables of the status calculation, \<open>status\<close> and \<open>issues\<close>, as they stand
  when the answer is built.  (The dashboard variant then sends an empty \<open>issues\<close> as
  undefined, which the widget reads back as \<open>[]\<close>.)
\<close>

record verdict =
  status :: status
  issues :: "string list"

section \<open>Numbers in template literals\<close>

text \<open>
  A template literal \<open>${n}\<close> prints a count in decimal.  All numbers printed by the
  calculation are lengths of arrays or positive differences of such.
\<close>

definition digit_char :: "nat \<Rightarrow> char" where
  "digit_char d = ''0123456789'' ! d"

fun show_nat :: "nat \<Rightarrow> string" where
  "show_nat n = (if n < 10 then [digit_char n] else show_nat (n div 10) @ [digit_char (n mod 10)])"

declare show_nat.simps [simp del]

section \<open>Signals\<close>

text \<open>\<open>reviews.filter((r) => r.state === "APPROVED").length\<close>\<close>

definition approvals :: "review list \<Rightarrow> nat" where
  "approvals rs = length (filter (\<lambda>r. review_state r = ''APPROVED'') rs)"

text \<open>\<open>prData.requested_reviewers?.length\<close>: undefined when the field is absent.\<close>

definition reviewers_length :: "pr_data \<Rightarrow> nat option" where
  "reviewers_length pd = map_option length (requested_reviewers pd)"

text \<open>\<open>x || d\<close> on an optional number: undefined and 0 are falsy.\<close>

definition or_num :: "nat option \<Rightarrow> nat \<Rightarrow> nat" where
  "or_num x d = (case x of None \<Rightarrow> d | Some n \<Rightarrow> if n = 0 then d else n)"

text \<open>\<open>x || d\<close> on an optional string: undefined, null and the empty string are falsy.\<close>

definition or_str :: "string option \<Rightarrow> string \<Rightarrow> string" where
  "or_str x d = (case x of None \<Rightarrow> d | Some s \<Rightarrow> if s = [] then d else s)"

text \<open>Dashboard variant: \<open>Math.max(1, prData.requested_reviewers?.length || 1)\<close>\<close>

definition requiredApprovals :: "pr_data \<Rightarrow> nat" where
  "requiredApprovals pd = max 1 (or_num (reviewers_length pd) 1)"

text \<open>Basic variant: \<open>prData.requested_reviewers?.length || 0\<close>\<close>

definition requestedReviewers :: "pr_data \<Rightarrow> nat" where
  "requestedReviewers pd = or_num (reviewers_length pd) 0"

text \<open>\<open>prData.mergeable === false\<close>\<close>

definition hasConflicts :: "pr_data \<Rightarrow> bool" where
  "hasConflicts pd = (mergeable pd = Some False)"

text \<open>Dashboard variant: the mapping of a check run to a check.\<close>

definition normalizedState :: "check_run \<Rightarrow> check_state" where
  "normalizedState c =
     (if run_conclusion c = Some ''success'' then CSuccess
      else if run_conclusion c = Some ''failure'' then CFailure
      else if run_conclusion c = Some ''cancelled'' then CError
      else CPending)"

definition to_check :: "check_run \<Rightarrow> check" where
  "to_check c =
     \<lparr> check_name = or_str (run_name c) (or_str (run_conclusion c) ''Check''),
       check_state = normalizedState c \<rparr>"

definition checks :: "check_run list \<Rightarrow> check list" where
  "checks rs = map to_check rs"

definition failingChecks :: "check list \<Rightarrow> check list" where
  "failingChecks cs = filter (\<lambda>c. check_state c = CFailure \<or> check_state c = CError) cs"

definition pendingChecks :: "check list \<Rightarrow> check list" where
  "pendingChecks cs = filter (\<lambda>c. check_state c = CPending) cs"

text \<open>Basic variant: the two counts over the check runs.\<close>

definition passingChecks :: "check_run list \<Rightarrow> nat" where
  "passingChecks rs =
     length (filter (\<lambda>c. run_status c = Some ''completed'' \<and> run_conclusion c = Some ''success'') rs)"

definition totalChecks :: "check_run list \<Rightarrow> nat" where
  "totalChecks rs = length (filter (\<lambda>c. run_status c = Some ''completed'') rs)"

section \<open>The status calculation\<close>

text \<open>
  The source threads \<open>status\<close> and \<open>issues\<close> through four \<open>if\<close> statements, in this order:
  conflicts, approvals, checks, draft.  Each statement is a function on the pair.
\<close>

definition initial :: verdict where
  "initial = \<lparr> status = Ready, issues = [] \<rparr>"

text \<open>\<open>status === "ready" ? "pending" : "not-ready"\<close>\<close>

definition soften :: "status \<Rightarrow> status" where
  "soften s = (if s = Ready then Pending else NotReady)"

definition conflicts_rule :: "bool \<Rightarrow> verdict \<Rightarrow> verdict" where
  "conflicts_rule conflicts v =
     (if conflicts
      then \<lparr> status = NotReady,
             issues = issues v @ [''Resolve the existing merge conflicts before merging''] \<rparr>
      else v)"

definition approvals_rule :: "nat \<Rightarrow> nat \<Rightarrow> verdict \<Rightarrow> verdict" where
  "approvals_rule a r v =
     (if a < r
      then \<lparr> status = soften (status v),
             issues = issues v @ [''Needs '' @ show_nat (r - a) @ '' more approval(s)''] \<rparr>
      else v)"

text \<open>Dashboard variant: \<open>failingChecks.length > 0\<close>\<close>

definition checks_rule :: "check list \<Rightarrow> verdict \<Rightarrow> verdict" where
  "checks_rule cs v =
     (if 0 < length (failingChecks cs)
      then \<lparr> status = soften (status v),
             issues = issues v @ [show_nat (length (failingChecks cs)) @ '' check(s) failing''] \<rparr>
      else v)"

text \<open>Basic variant: \<open>totalChecks > 0 && passingChecks < totalChecks\<close>\<close>

definition checks_rule_basic :: "nat \<Rightarrow> nat \<Rightarrow> verdict \<Rightarrow> verdict" where
  "checks_rule_basic np nt v =
     (if 0 < nt \<and> np < nt
      then \<lparr> status = soften (status v),
             issues = issues v @ [show_nat (nt - np) @ '' check(s) failing''] \<rparr>
      else v)"

definition draft_rule :: "bool \<Rightarrow> verdict \<Rightarrow> verdict" where
  "draft_rule d v =
     (if d
      then \<lparr> status = NotReady, issues = issues v @ [''PR is still in draft''] \<rparr>
      else v)"

text \<open>The state of the two variables after each statement of the dashboard variant.\<close>

definition after_conflicts :: "snapshot \<Rightarrow> verdict" where
  "after_conflicts s = conflicts_rule (hasConflicts (prData s)) initial"

definition after_approvals :: "snapshot \<Rightarrow> verdict" where
  "after_approvals s =
     approvals_rule (approvals (reviews s)) (requiredApprovals (prData s)) (after_conflicts s)"

definition after_checks :: "snapshot \<Rightarrow> verdict" where
  "after_checks s = checks_rule (checks (check_runs s)) (after_approvals s)"

definition fetch_github_pr :: "snapshot \<Rightarrow> verdict" where
  "fetch_github_pr s = draft_rule (draft (prData s)) (after_checks s)"

text \<open>The basic variant.\<close>

definition fetch_github_pr_basic :: "snapshot \<Rightarrow> verdict" where
  "fetch_github_pr_basic s =
     draft_rule (draft (prData s))
       (checks_rule_basic (passingChecks (check_runs s)) (totalChecks (check_runs s))
         (approvals_rule (approvals (reviews s)) (max 1 (requestedReviewers (prData s)))
           (conflicts_rule (hasConflicts (prData s)) initial)))"

section \<open>The next actions of the dashboard widget\<close>

text \<open>
  The properties the widget reads for its next actions.  \<open>checks\<close> and \<open>draft\<close> have the
  defaults \<open>[]\<close> and \<open>false\<close>; \<open>approvals\<close> and \<open>requiredApprovals\<close> are the counts that the
  tool has put in its answer.
\<close>

record props =
  props_approvals :: nat
  props_requiredApprovals :: nat
  props_checks :: "check list"
  props_draft :: bool
  props_mergeable :: "bool option"

text \<open>\<open>if (c) { actions.push(x) }\<close>\<close>

definition push_if :: "bool \<Rightarrow> string \<Rightarrow> string list \<Rightarrow> string list" where
  "push_if c x actions = (if c then actions @ [x] else actions)"

text \<open>\<open>n > 1 ? "s" : ""\<close>\<close>

definition plural :: "nat \<Rightarrow> string" where
  "plural n = (if 1 < n then ''s'' else [])"

definition getNextActions :: "props \<Rightarrow> string list" where
  "getNextActions p =
     (let failing = length (failingChecks (props_checks p));
          pending = length (pendingChecks (props_checks p));
          a = props_approvals p;
          r = props_requiredApprovals p;
          actions1 = push_if (props_mergeable p = Some False)
                       ''Resolve the existing merge conflicts before merging'' [];
          actions2 = push_if (props_draft p) ''Mark the PR as ready for review'' actions1;
          actions3 = push_if (0 < failing)
                       (''Fix '' @ show_nat failing @ '' failing check'' @ plural failing) actions2;
          actions4 = push_if (a < r)
                       (''Request '' @ show_nat (r - a) @ '' more approval'' @ plural (r - a)) actions3;
          actions5 = push_if (0 < pending)
                       (''Wait for '' @ show_nat pending @ '' pending check'' @ plural pending) actions4
      in take 3 actions5)"

text \<open>
  The answer of the dashboard variant, as the widget reads it: an empty \<open>checks\<close> is sent
  as undefined and read back as \<open>[]\<close>, \<open>draft\<close> is sent as \<open>prData.draft || false\<close>.
\<close>

definition widget_props :: "snapshot \<Rightarrow> props" where
  "widget_props s =
     \<lparr> props_approvals = approvals (reviews s),
       props_requiredApprovals = requiredApprovals (prData s),
       props_checks = checks (check_runs s),
       props_draft = draft (prData s),
       props_mergeable = mergeable (prData s) \<rparr>"

definition nextActions :: "snapshot \<Rightarrow> string list" where
  "nextActions s = getNextActions (widget_props s)"

section \<open>Concrete snapshots\<close>

definition approved_by :: "string \<Rightarrow> review" where
  "approved_by u = \<lparr> review_user = u, review_state = ''APPROVED'' \<rparr>"

definition completed_run :: "string \<Rightarrow> string \<Rightarrow> check_run" where
  "completed_run n c =
     \<lparr> run_name = Some n, run_status = Some ''completed'', run_conclusion = Some c \<rparr>"

definition running_run :: "string \<Rightarrow> check_run" where
  "running_run n = \<lparr> run_name = Some n, run_status = Some ''in_progress'', run_conclusion = None \<rparr>"

text \<open>Conflicts, three approvals, no requested reviewer, one passing check.\<close>

definition scenario_B :: snapshot where
  "scenario_B =
     \<lparr> prData = \<lparr> draft = False, mergeable = Some False, requested_reviewers = Some [] \<rparr>,
       reviews = [approved_by ''ann'', approved_by ''bob'', approved_by ''cy''],
       check_runs = [completed_run ''build'' ''success''] \<rparr>"

text \<open>Mergeable, no approval, no requested reviewer, one failing and one running check.\<close>

definition scenario_C :: snapshot where
  "scenario_C =
     \<lparr> prData = \<lparr> draft = False, mergeable = Some True, requested_reviewers = Some [] \<rparr>,
       reviews = [],
       check_runs = [completed_run ''build'' ''failure'', running_run ''lint''] \<rparr>"

text \<open>Unknown mergeability, draft, five approvals, no check.\<close>

definition scenario_D :: snapshot where
  "scenario_D =
     \<lparr> prData = \<lparr> draft = True, mergeable = None, requested_reviewers = Some [] \<rparr>,
       reviews = [approved_by ''ann'', approved_by ''bob'', approved_by ''cy'',
                  approved_by ''dee'', approved_by ''eve''],
       check_runs = [] \<rparr>"

text \<open>A draft without approvals.\<close>

definition draft_unapproved :: snapshot where
  "draft_unapproved =
     \<lparr> prData = \<lparr> draft = True, mergeable = Some True, requested_reviewers = Some [] \<rparr>,
       reviews = [],
       check_runs = [] \<rparr>"

text \<open>Unknown mergeability, one reviewer who approved, one running check.\<close>

definition unknown_mergeable :: snapshot where
  "unknown_mergeable =
     \<lparr> prData = \<lparr> draft = False, mergeable = None, requested_reviewers = Some [''ann''] \<rparr>,
       reviews = [approved_by ''ann''],
       check_runs = [running_run ''lint''] \<rparr>"

text \<open>No requested reviewer and no review.\<close>

definition no_reviewers :: snapshot where
  "no_reviewers =
     \<lparr> prData = \<lparr> draft = False, mergeable = Some True, requested_reviewers = None \<rparr>,
       reviews = [],
       check_runs = [] \<rparr>"

text \<open>Two requested reviewers, one approval, completed checks only.\<close>

definition all_completed :: snapshot where
  "all_completed =
     \<lparr> prData = \<lparr> draft = False, mergeable = Some True,
                  requested_reviewers = Some [''ann'', ''bob''] \<rparr>,
       reviews = [approved_by ''ann''],
       check_runs = [completed_run ''build'' ''success'', completed_run ''test'' ''failure'',
                     completed_run ''lint'' ''failure''] \<rparr>"

text \<open>Unknown mergeability, one reviewer who approved, one completed run that was skipped.\<close>

definition skipped_check :: snapshot where
  "skipped_check =
     \<lparr> prData = \<lparr> draft = False, mergeable = None, requested_reviewers = Some [''ann''] \<rparr>,
       reviews = [approved_by ''ann''],
       check_runs = [completed_run ''deploy'' ''skipped''] \<rparr>"

section \<open>Evaluation lemmas\<close>

lemma show_nat_digits:
  "show_nat (Suc 0) = ''1''" "show_nat (Suc (Suc 0)) = ''2''"
  "show_nat 1 = ''1''" "show_nat 2 = ''2''" "show_nat 3 = ''3''"
  by (simp_all add: show_nat.simps digit_char_def)

lemmas eval_defs = fetch_github_pr_def fetch_github_pr_basic_def after_checks_def
  after_approvals_def after_conflicts_def conflicts_rule_def approvals_rule_def checks_rule_def
  checks_rule_basic_def draft_rule_def initial_def soften_def hasConflicts_def approvals_def
  requiredApprovals_def requestedReviewers_def reviewers_length_def or_num_def or_str_def
  normalizedState_def to_check_def checks_def failingChecks_def pendingChecks_def
  passingChecks_def totalChecks_def approved_by_def completed_run_def running_run_def
  show_nat_digits getNextActions_def widget_props_def nextActions_def push_if_def plural_def

section \<open>Status lemmas\<close>

lemma soften_not_ready [simp]: "soften NotReady = NotReady"
  by (simp add: soften_def)

lemma status_draft_rule_True [simp]: "status (draft_rule True v) = NotReady"
  by (simp add: draft_rule_def)

lemma status_draft_rule_False [simp]: "draft_rule False v = v"
  by (simp add: draft_rule_def)

lemma status_conflicts_rule_True [simp]: "status (conflicts_rule True v) = NotReady"
  by (simp add: conflicts_rule_def)

lemma conflicts_rule_False [simp]: "conflicts_rule False v = v"
  by (simp add: conflicts_rule_def)

lemma approvals_rule_keeps_not_ready:
  "status v = NotReady \<Longrightarrow> status (approvals_rule a r v) = NotReady"
  by (simp add: approvals_rule_def)

lemma checks_rule_keeps_not_ready:
  "status v = NotReady \<Longrightarrow> status (checks_rule cs v) = NotReady"
  by (simp add: checks_rule_def)

lemma checks_rule_basic_keeps_not_ready:
  "status v = NotReady \<Longrightarrow> status (checks_rule_basic p t v) = NotReady"
  by (simp add: checks_rule_basic_def)

lemma draft_rule_keeps_not_ready:
  "status v = NotReady \<Longrightarrow> status (draft_rule d v) = NotReady"
  by (simp add: draft_rule_def)

lemma issues_approvals_rule_mono: "set (issues v) \<subseteq> set (issues (approvals_rule a r v))"
  by (auto simp add: approvals_rule_def)

lemma issues_checks_rule_mono: "set (issues v) \<subseteq> set (issues (checks_rule cs v))"
  by (auto simp add: checks_rule_def)

lemma issues_checks_rule_basic_mono:
  "set (issues v) \<subseteq> set (issues (checks_rule_basic p t v))"
  by (auto simp add: checks_rule_basic_def)

lemma issues_draft_rule_mono: "set (issues v) \<subseteq> set (issues (draft_rule d v))"
  by (auto simp add: draft_rule_def)

lemma conflicts_issue_added:
  "''Resolve the existing merge conflicts before merging'' \<in> set (issues (conflicts_rule True v))"
  by (simp add: conflicts_rule_def)

lemma failingChecks_empty_iff:
  "(failingChecks cs = []) = (\<forall>c \<in> set cs. check_state c \<noteq> CFailure \<and> check_state c \<noteq> CError)"
  by (auto simp add: failingChecks_def filter_empty_conv)

lemma required_approvals_variants:
  "max 1 (requestedReviewers pd) = requiredApprovals pd"
  by (simp add: requiredApprovals_def requestedReviewers_def reviewers_length_def or_num_def
      split: option.splits)

text \<open>
  When every check run is completed with conclusion success or failure, the counts of the
  basic variant and the failing checks of the dashboard variant add up.
\<close>

lemma completed_counts:
  assumes "\<forall>c \<in> set rs. run_status c = Some ''completed''
             \<and> (run_conclusion c = Some ''success'' \<or> run_conclusion c = Some ''failure'')"
  shows "totalChecks rs = length rs
       \<and> passingChecks rs + length (failingChecks (checks rs)) = length rs"
  using assms
proof (induction rs)
  case Nil
  show ?case
    by (simp add: totalChecks_def passingChecks_def failingChecks_def checks_def)
next
  case (Cons c rs)
  then have ih: "totalChecks rs = length rs"
    "passingChecks rs + length (failingChecks (checks rs)) = length rs"
    by simp_all
  from Cons.prems have st: "run_status c = Some ''completed''"
    and co: "run_conclusion c = Some ''success'' \<or> run_conclusion c = Some ''failure''"
    by simp_all
  have t: "totalChecks (c # rs) = Suc (totalChecks rs)"
    using st by (simp add: totalChecks_def)
  from co have "passingChecks (c # rs) + length (failingChecks (checks (c # rs)))
      = Suc (passingChecks rs + length (failingChecks (checks rs)))"
  proof
    assume "run_conclusion c = Some ''success''"
    then show ?thesis
      using st by (simp add: passingChecks_def failingChecks_def checks_def to_check_def
          normalizedState_def)
  next
    assume "run_conclusion c = Some ''failure''"
    then show ?thesis
      using st by (simp add: passingChecks_def failingChecks_def checks_def to_check_def
          normalizedState_def)
  qed
  with t ih show ?case by simp
qed

text \<open>The two counts of the basic variant differ exactly when a completed run did not succeed.\<close>

lemma passing_le_total: "passingChecks rs \<le> totalChecks rs"
  by (induction rs) (simp_all add: passingChecks_def totalChecks_def)

lemma passing_lt_total_iff:
  "(passingChecks rs < totalChecks rs)
     = (\<exists>c \<in> set rs. run_status c = Some ''completed'' \<and> run_conclusion c \<noteq> Some ''success'')"
proof (induction rs)
  case Nil
  show ?case by (simp add: passingChecks_def totalChecks_def)
next
  case (Cons c rs)
  have le: "passingChecks rs \<le> totalChecks rs" by (rule passing_le_total)
  show ?case
  proof (cases "run_status c = Some ''completed''")
    case False
    then have "passingChecks (c # rs) = passingChecks rs" "totalChecks (c # rs) = totalChecks rs"
      by (simp_all add: passingChecks_def totalChecks_def)
    with Cons.IH False show ?thesis by simp
  next
    case True
    show ?thesis
    proof (cases "run_conclusion c = Some ''success''")
      case True
      with \<open>run_status c = Some ''completed''\<close>
      have "passingChecks (c # rs) = Suc (passingChecks rs)"
        "totalChecks (c # rs) = Suc (totalChecks rs)"
        by (simp_all add: passingChecks_def totalChecks_def)
      with Cons.IH True show ?thesis by simp
    next
      case False
      with \<open>run_status c = Some ''completed''\<close>
      have "passingChecks (c # rs) = passingChecks rs"
        "totalChecks (c # rs) = Suc (totalChecks rs)"
        by (simp_all add: passingChecks_def totalChecks_def)
      with le False \<open>run_status c = Some ''completed''\<close> show ?thesis by auto
    qed
  qed
qed

section \<open>Conflicts\<close>

text \<open>
  C1.  When \<open>mergeable\<close> is false, the status is not-ready whatever the approvals, the
  checks and the draft flag are, and the issues contain the conflicts message.  This
  holds for the dashboard variant and for the basic variant.
\<close>

theorem conflicts_block:
  assumes "mergeable (prData s) = Some False"
  shows "status (fetch_github_pr s) = NotReady
       \<and> ''Resolve the existing merge conflicts before merging'' \<in> set (issues (fetch_github_pr s))
       \<and> status (fetch_github_pr_basic s) = NotReady
       \<and> ''Resolve the existing merge conflicts before merging'' \<in> set (issues (fetch_github_pr_basic s))"
proof -
  from assms have c: "hasConflicts (prData s)"
    by (simp add: hasConflicts_def)
  have s0: "status (after_conflicts s) = NotReady"
    using c by (simp add: after_conflicts_def)
  have i0: "''Resolve the existing merge conflicts before merging'' \<in> set (issues (after_conflicts s))"
    using c by (simp add: after_conflicts_def conflicts_issue_added)
  have s1: "status (after_approvals s) = NotReady"
    unfolding after_approvals_def by (rule approvals_rule_keeps_not_ready [OF s0])
  have s2: "status (after_checks s) = NotReady"
    unfolding after_checks_def by (rule checks_rule_keeps_not_ready [OF s1])
  have d1: "status (fetch_github_pr s) = NotReady"
    unfolding fetch_github_pr_def by (rule draft_rule_keeps_not_ready [OF s2])
  have i1: "''Resolve the existing merge conflicts before merging'' \<in> set (issues (fetch_github_pr s))"
    unfolding fetch_github_pr_def after_checks_def after_approvals_def
    using i0 issues_approvals_rule_mono issues_checks_rule_mono issues_draft_rule_mono
    by blast
  have b0: "status (conflicts_rule (hasConflicts (prData s)) initial) = NotReady"
    using c by simp
  have d2: "status (fetch_github_pr_basic s) = NotReady"
    unfolding fetch_github_pr_basic_def
    by (intro draft_rule_keeps_not_ready checks_rule_basic_keeps_not_ready
        approvals_rule_keeps_not_ready b0)
  have j0: "''Resolve the existing merge conflicts before merging''
              \<in> set (issues (conflicts_rule (hasConflicts (prData s)) initial))"
    using c by (simp add: conflicts_issue_added)
  have i2: "''Resolve the existing merge conflicts before merging'' \<in> set (issues (fetch_github_pr_basic s))"
    unfolding fetch_github_pr_basic_def
    using j0 issues_approvals_rule_mono issues_checks_rule_basic_mono issues_draft_rule_mono
    by blast
  from d1 i1 d2 i2 show ?thesis by simp
qed

text \<open>Scenario B of the specification: conflicts with three approvals and a passing check.\<close>

theorem conflicts_block_witness:
  "mergeable (prData scenario_B) = Some False
   \<and> requiredApprovals (prData scenario_B) \<le> approvals (reviews scenario_B)
   \<and> status (fetch_github_pr scenario_B) = NotReady
   \<and> issues (fetch_github_pr scenario_B) = [''Resolve the existing merge conflicts before merging'']
   \<and> status (fetch_github_pr_basic scenario_B) = NotReady
   \<and> issues (fetch_github_pr_basic scenario_B)
       = [''Resolve the existing merge conflicts before merging'']"
  using conflicts_block [of scenario_B]
  by (simp add: scenario_B_def eval_defs)

section \<open>The checks rule\<close>

text \<open>
  Against C2 as stated.  In scenario C the status is pending after the approvals
  statement and the set of failing checks is not empty; after the checks statement the
  status is not-ready, not pending.
\<close>

theorem checks_rule_pending_counterexample:
  "failingChecks (checks (check_runs scenario_C)) \<noteq> []
   \<and> \<not> hasConflicts (prData scenario_C)
   \<and> \<not> draft (prData scenario_C)
   \<and> approvals (reviews scenario_C) < requiredApprovals (prData scenario_C)
   \<and> status (after_approvals scenario_C) = Pending
   \<and> status (after_checks scenario_C) \<noteq> Pending
   \<and> status (after_checks scenario_C) = NotReady"
  by (simp add: scenario_C_def eval_defs)

text \<open>
  C2, amended.  When the set of failing checks is not empty, the checks statement sets
  the status to pending if it was ready and to not-ready otherwise (so a pending status
  becomes not-ready), and appends the issue \<open>N check(s) failing\<close>, N the number of failing
  checks.
\<close>

theorem checks_rule_downgrade:
  assumes "failingChecks cs \<noteq> []"
  shows "status (checks_rule cs v) = (if status v = Ready then Pending else NotReady)
       \<and> issues (checks_rule cs v)
           = issues v @ [show_nat (length (failingChecks cs)) @ '' check(s) failing'']"
  using assms by (simp add: checks_rule_def soften_def)

theorem checks_rule_downgrade_witness:
  "failingChecks [\<lparr> check_name = ''build'', check_state = CFailure \<rparr>] \<noteq> []
   \<and> status (checks_rule [\<lparr> check_name = ''build'', check_state = CFailure \<rparr>]
               \<lparr> status = Pending, issues = [''Needs 1 more approval(s)''] \<rparr>) = NotReady
   \<and> issues (checks_rule [\<lparr> check_name = ''build'', check_state = CFailure \<rparr>]
               \<lparr> status = Pending, issues = [''Needs 1 more approval(s)''] \<rparr>)
       = [''Needs 1 more approval(s)'', ''1 check(s) failing'']"
  using checks_rule_downgrade [of "[\<lparr> check_name = ''build'', check_state = CFailure \<rparr>]"
      "\<lparr> status = Pending, issues = [''Needs 1 more approval(s)''] \<rparr>"]
  by (simp add: failingChecks_def show_nat_digits)

section \<open>Scenario C\<close>

text \<open>
  Against C3 as stated.  On scenario C the status and the issues are as claimed, but the
  next actions are three, not two: the running check adds a third action.
\<close>

theorem scenario_C_counterexample:
  "\<not> (status (fetch_github_pr scenario_C) = NotReady
       \<and> issues (fetch_github_pr scenario_C) = [''Needs 1 more approval(s)'', ''1 check(s) failing'']
       \<and> length (nextActions scenario_C) = 2)"
  by (simp add: scenario_C_def eval_defs)

text \<open>
  C3, amended.  On scenario C (mergeable, not a draft, no approval of one required, one
  failing and one pending check) the status is not-ready, the issues are the missing
  approval and then the failing check, and the next actions are three, in this order:
  the failing check, the missing approval, the pending check.
\<close>

theorem scenario_C_verdict:
  "mergeable (prData scenario_C) = Some True
   \<and> draft (prData scenario_C) = False
   \<and> approvals (reviews scenario_C) = 0
   \<and> requiredApprovals (prData scenario_C) = 1
   \<and> map check_state (checks (check_runs scenario_C)) = [CFailure, CPending]
   \<and> status (fetch_github_pr scenario_C) = NotReady
   \<and> issues (fetch_github_pr scenario_C) = [''Needs 1 more approval(s)'', ''1 check(s) failing'']
   \<and> nextActions scenario_C
       = [''Fix 1 failing check'', ''Request 1 more approval'', ''Wait for 1 pending check'']
   \<and> length (nextActions scenario_C) = 3"
  by (simp add: scenario_C_def eval_defs)

section \<open>The order of the issues\<close>

text \<open>
  Against C4 as stated.  For a draft without approvals the draft issue comes after the
  approvals issue, in both variants.
\<close>

theorem issues_order_counterexample:
  "draft (prData draft_unapproved)
   \<and> approvals (reviews draft_unapproved) < requiredApprovals (prData draft_unapproved)
   \<and> issues (fetch_github_pr draft_unapproved)
       = [''Needs 1 more approval(s)'', ''PR is still in draft'']
   \<and> issues (fetch_github_pr draft_unapproved)
       \<noteq> [''PR is still in draft'', ''Needs 1 more approval(s)'']
   \<and> issues (fetch_github_pr_basic draft_unapproved)
       = [''Needs 1 more approval(s)'', ''PR is still in draft'']"
  by (simp add: draft_unapproved_def eval_defs)

text \<open>
  C4, amended.  The issues are listed in the order in which the statements run:
  the conflicts issue (if any), then the missing-approvals issue (if any), then the
  failing-checks issue (if any), then the draft issue (if any).  So for a draft that also
  lacks approvals, \<open>Needs N more approval(s)\<close> comes before \<open>PR is still in draft\<close>.  The
  basic variant has the same order, with its own count of failing checks.
\<close>

theorem issues_order:
  "issues (fetch_github_pr s) =
     (if mergeable (prData s) = Some False
      then [''Resolve the existing merge conflicts before merging''] else [])
     @ (if approvals (reviews s) < requiredApprovals (prData s)
        then [''Needs '' @ show_nat (requiredApprovals (prData s) - approvals (reviews s))
                @ '' more approval(s)''] else [])
     @ (if failingChecks (checks (check_runs s)) \<noteq> []
        then [show_nat (length (failingChecks (checks (check_runs s)))) @ '' check(s) failing'']
        else [])
     @ (if draft (prData s) then [''PR is still in draft''] else [])
   \<and> issues (fetch_github_pr_basic s) =
     (if mergeable (prData s) = Some False
      then [''Resolve the existing merge conflicts before merging''] else [])
     @ (if approvals (reviews s) < max 1 (requestedReviewers (prData s))
        then [''Needs '' @ show_nat (max 1 (requestedReviewers (prData s)) - approvals (reviews s))
                @ '' more approval(s)''] else [])
     @ (if 0 < totalChecks (check_runs s) \<and> passingChecks (check_runs s) < totalChecks (check_runs s)
        then [show_nat (totalChecks (check_runs s) - passingChecks (check_runs s))
                @ '' check(s) failing'']
        else [])
     @ (if draft (prData s) then [''PR is still in draft''] else [])"
  by (simp add: fetch_github_pr_def fetch_github_pr_basic_def after_checks_def
      after_approvals_def after_conflicts_def conflicts_rule_def approvals_rule_def
      checks_rule_def checks_rule_basic_def draft_rule_def initial_def hasConflicts_def)

section \<open>Drafts\<close>

text \<open>
  C5.  When the draft flag is set, the status is not-ready whatever the mergeable state,
  the approvals and the checks are, and the issues contain \<open>PR is still in draft\<close>.  This
  holds for both variants.
\<close>

theorem draft_blocks:
  assumes "draft (prData s)"
  shows "status (fetch_github_pr s) = NotReady
       \<and> ''PR is still in draft'' \<in> set (issues (fetch_github_pr s))
       \<and> status (fetch_github_pr_basic s) = NotReady
       \<and> ''PR is still in draft'' \<in> set (issues (fetch_github_pr_basic s))"
  using assms by (simp add: fetch_github_pr_def fetch_github_pr_basic_def draft_rule_def)

text \<open>Scenario D of the specification: a draft with five approvals.\<close>

theorem draft_blocks_witness:
  "draft (prData scenario_D)
   \<and> mergeable (prData scenario_D) = None
   \<and> approvals (reviews scenario_D) = 5
   \<and> status (fetch_github_pr scenario_D) = NotReady
   \<and> issues (fetch_github_pr scenario_D) = [''PR is still in draft'']
   \<and> status (fetch_github_pr_basic scenario_D) = NotReady"
  using draft_blocks [of scenario_D]
  by (simp add: scenario_D_def eval_defs)

section \<open>Next actions\<close>

text \<open>
  C6.  The next actions are the applicable actions in the fixed priority order
  conflicts, draft (phrased as an action), failing checks, missing approvals, pending
  checks, each of the last three with its count and a plural \<open>s\<close> when the count exceeds
  one, cut to the first three entries; so there are never more than three.
\<close>

theorem next_actions_priority:
  "getNextActions p =
     take 3
      ((if props_mergeable p = Some False
        then [''Resolve the existing merge conflicts before merging''] else [])
       @ (if props_draft p then [''Mark the PR as ready for review''] else [])
       @ (if failingChecks (props_checks p) \<noteq> []
          then [''Fix '' @ show_nat (length (failingChecks (props_checks p))) @ '' failing check''
                  @ (if 1 < length (failingChecks (props_checks p)) then ''s'' else [])]
          else [])
       @ (if props_approvals p < props_requiredApprovals p
          then [''Request '' @ show_nat (props_requiredApprovals p - props_approvals p)
                  @ '' more approval''
                  @ (if 1 < props_requiredApprovals p - props_approvals p then ''s'' else [])]
          else [])
       @ (if pendingChecks (props_checks p) \<noteq> []
          then [''Wait for '' @ show_nat (length (pendingChecks (props_checks p)))
                  @ '' pending check''
                  @ (if 1 < length (pendingChecks (props_checks p)) then ''s'' else [])]
          else []))
   \<and> length (getNextActions p) \<le> 3"
  by (simp add: getNextActions_def push_if_def plural_def Let_def)

section \<open>Ready\<close>

text \<open>
  Against C7 as stated.  The basic variant has no normalised state: it counts every
  completed run whose conclusion is not success as failing.  With unknown mergeability, no
  draft, the required approval and one completed run concluded \<open>skipped\<close> (normalised state
  pending), its status is pending, not ready.
\<close>

theorem ready_basic_counterexample:
  "mergeable (prData skipped_check) = None
   \<and> draft (prData skipped_check) = False
   \<and> requiredApprovals (prData skipped_check) \<le> approvals (reviews skipped_check)
   \<and> map check_state (checks (check_runs skipped_check)) = [CPending]
   \<and> failingChecks (checks (check_runs skipped_check)) = []
   \<and> status (fetch_github_pr_basic skipped_check) \<noteq> Ready
   \<and> status (fetch_github_pr_basic skipped_check) = Pending
   \<and> issues (fetch_github_pr_basic skipped_check) = [''1 check(s) failing'']"
  by (simp add: skipped_check_def eval_defs)

text \<open>
  C7, amended.  When \<open>mergeable\<close> is not false (true or unknown), the draft flag is not set,
  the approvals reach the required approvals and no check has the normalised state
  failure or error, the status of the dashboard variant is ready and there is no issue:
  pending checks are allowed by the hypotheses, and unknown mergeability is not a
  conflict.  Under the same hypotheses the status of the basic variant is ready exactly
  when every completed check run has the conclusion success.
\<close>

theorem ready_when_nothing_blocks:
  assumes "mergeable (prData s) \<noteq> Some False"
    and "\<not> draft (prData s)"
    and "requiredApprovals (prData s) \<le> approvals (reviews s)"
    and "\<forall>c \<in> set (checks (check_runs s)). check_state c \<noteq> CFailure \<and> check_state c \<noteq> CError"
  shows "status (fetch_github_pr s) = Ready \<and> issues (fetch_github_pr s) = []
       \<and> (status (fetch_github_pr_basic s) = Ready)
           = (\<forall>c \<in> set (check_runs s).
                run_status c = Some ''completed'' \<longrightarrow> run_conclusion c = Some ''success'')"
proof -
  from assms(4) have f: "failingChecks (checks (check_runs s)) = []"
    by (simp add: failingChecks_empty_iff)
  from assms(1) have c: "\<not> hasConflicts (prData s)"
    by (simp add: hasConflicts_def)
  from assms(3) have a: "\<not> approvals (reviews s) < requiredApprovals (prData s)"
    by simp
  have d: "status (fetch_github_pr s) = Ready \<and> issues (fetch_github_pr s) = []"
    using f c a assms(2)
    by (simp add: fetch_github_pr_def after_checks_def after_approvals_def after_conflicts_def
        conflicts_rule_def approvals_rule_def checks_rule_def draft_rule_def initial_def)
  from a have a': "\<not> approvals (reviews s) < max 1 (requestedReviewers (prData s))"
    unfolding required_approvals_variants .
  have b0: "approvals_rule (approvals (reviews s)) (max 1 (requestedReviewers (prData s)))
              (conflicts_rule (hasConflicts (prData s)) initial) = initial"
    using c a' unfolding approvals_rule_def conflicts_rule_def by simp
  have b1: "fetch_github_pr_basic s
              = checks_rule_basic (passingChecks (check_runs s)) (totalChecks (check_runs s)) initial"
    unfolding fetch_github_pr_basic_def b0 using assms(2) by simp
  have b2: "(status (fetch_github_pr_basic s) = Ready)
              = (\<not> passingChecks (check_runs s) < totalChecks (check_runs s))"
    unfolding b1 checks_rule_basic_def
    by (auto simp add: initial_def soften_def)
  have b: "(status (fetch_github_pr_basic s) = Ready)
           = (\<forall>c \<in> set (check_runs s).
                run_status c = Some ''completed'' \<longrightarrow> run_conclusion c = Some ''success'')"
    unfolding b2 passing_lt_total_iff by blast
  from d b show ?thesis by simp
qed

text \<open>Unknown mergeability and one running check: ready in both variants.\<close>

theorem ready_when_nothing_blocks_witness:
  "mergeable (prData unknown_mergeable) = None
   \<and> draft (prData unknown_mergeable) = False
   \<and> requiredApprovals (prData unknown_mergeable) \<le> approvals (reviews unknown_mergeable)
   \<and> map check_state (checks (check_runs unknown_mergeable)) = [CPending]
   \<and> map run_status (check_runs unknown_mergeable) = [Some ''in_progress'']
   \<and> status (fetch_github_pr unknown_mergeable) = Ready
   \<and> issues (fetch_github_pr unknown_mergeable) = []
   \<and> status (fetch_github_pr_basic unknown_mergeable) = Ready"
proof -
  have h1: "mergeable (prData unknown_mergeable) \<noteq> Some False"
    by (simp add: unknown_mergeable_def)
  have h2: "\<not> draft (prData unknown_mergeable)"
    by (simp add: unknown_mergeable_def)
  have h3: "requiredApprovals (prData unknown_mergeable) \<le> approvals (reviews unknown_mergeable)"
    by (simp add: unknown_mergeable_def eval_defs)
  have h4: "\<forall>c \<in> set (checks (check_runs unknown_mergeable)).
              check_state c \<noteq> CFailure \<and> check_state c \<noteq> CError"
    by (simp add: unknown_mergeable_def eval_defs)
  have m: "map check_state (checks (check_runs unknown_mergeable)) = [CPending]
         \<and> map run_status (check_runs unknown_mergeable) = [Some ''in_progress'']"
    by (simp add: unknown_mergeable_def eval_defs)
  have n: "mergeable (prData unknown_mergeable) = None"
    by (simp add: unknown_mergeable_def)
  have q: "\<forall>c \<in> set (check_runs unknown_mergeable).
              run_status c = Some ''completed'' \<longrightarrow> run_conclusion c = Some ''success''"
    by (simp add: unknown_mergeable_def running_run_def)
  from ready_when_nothing_blocks [OF h1 h2 h3 h4] h2 h3 m n q show ?thesis by simp
qed

section \<open>Required approvals\<close>

text \<open>
  C8.  The required approvals are the maximum of 1 and the number of requested reviewers
  (0 when the field is absent), in both variants.  With no requested reviewer and no
  approval, the required approvals are 1, and in both variants the status is not ready
  and the issues contain \<open>Needs 1 more approval(s)\<close>.
\<close>

theorem required_approvals_floor:
  "requiredApprovals (prData s)
     = max 1 (case requested_reviewers (prData s) of None \<Rightarrow> 0 | Some l \<Rightarrow> length l)
   \<and> max 1 (requestedReviewers (prData s))
     = max 1 (case requested_reviewers (prData s) of None \<Rightarrow> 0 | Some l \<Rightarrow> length l)
   \<and> ((case requested_reviewers (prData s) of None \<Rightarrow> 0 | Some l \<Rightarrow> length l) = 0
        \<and> approvals (reviews s) = 0
      \<longrightarrow> requiredApprovals (prData s) = 1
        \<and> status (fetch_github_pr s) \<noteq> Ready
        \<and> ''Needs 1 more approval(s)'' \<in> set (issues (fetch_github_pr s))
        \<and> max 1 (requestedReviewers (prData s)) = 1
        \<and> status (fetch_github_pr_basic s) \<noteq> Ready
        \<and> ''Needs 1 more approval(s)'' \<in> set (issues (fetch_github_pr_basic s)))"
proof -
  have r: "requiredApprovals (prData s)
     = max 1 (case requested_reviewers (prData s) of None \<Rightarrow> 0 | Some l \<Rightarrow> length l)"
    by (simp add: requiredApprovals_def reviewers_length_def or_num_def split: option.splits)
  have b: "max 1 (requestedReviewers (prData s))
     = max 1 (case requested_reviewers (prData s) of None \<Rightarrow> 0 | Some l \<Rightarrow> length l)"
    by (simp add: requestedReviewers_def reviewers_length_def or_num_def split: option.splits)
  have f: "requiredApprovals (prData s) = 1
        \<and> status (fetch_github_pr s) \<noteq> Ready
        \<and> ''Needs 1 more approval(s)'' \<in> set (issues (fetch_github_pr s))
        \<and> max 1 (requestedReviewers (prData s)) = 1
        \<and> status (fetch_github_pr_basic s) \<noteq> Ready
        \<and> ''Needs 1 more approval(s)'' \<in> set (issues (fetch_github_pr_basic s))"
    if z: "(case requested_reviewers (prData s) of None \<Rightarrow> 0 | Some l \<Rightarrow> length l) = 0"
      and a: "approvals (reviews s) = 0"
  proof -
    from r z have r1: "requiredApprovals (prData s) = 1" by simp
    from b z have b1: "max 1 (requestedReviewers (prData s)) = 1" by simp
    have s1: "status (after_approvals s) \<noteq> Ready"
      using r1 a by (simp add: after_approvals_def approvals_rule_def soften_def)
    have i1: "''Needs 1 more approval(s)'' \<in> set (issues (after_approvals s))"
      using r1 a by (simp add: after_approvals_def approvals_rule_def show_nat_digits)
    have s2: "status (fetch_github_pr s) \<noteq> Ready"
      using s1 by (simp add: fetch_github_pr_def after_checks_def checks_rule_def draft_rule_def
          soften_def)
    have i2: "''Needs 1 more approval(s)'' \<in> set (issues (fetch_github_pr s))"
      unfolding fetch_github_pr_def after_checks_def
      using i1 issues_checks_rule_mono issues_draft_rule_mono by blast
    let ?v = "approvals_rule (approvals (reviews s)) (max 1 (requestedReviewers (prData s)))
                (conflicts_rule (hasConflicts (prData s)) initial)"
    have s3: "status ?v \<noteq> Ready"
      unfolding b1 a by (simp add: approvals_rule_def soften_def)
    have i3: "''Needs 1 more approval(s)'' \<in> set (issues ?v)"
      unfolding b1 a by (simp add: approvals_rule_def show_nat_digits)
    have s4: "status (fetch_github_pr_basic s) \<noteq> Ready"
      using s3 by (simp add: fetch_github_pr_basic_def checks_rule_basic_def draft_rule_def
          soften_def)
    have i4: "''Needs 1 more approval(s)'' \<in> set (issues (fetch_github_pr_basic s))"
      unfolding fetch_github_pr_basic_def
      using i3 issues_checks_rule_basic_mono issues_draft_rule_mono by blast
    from r1 b1 s2 i2 s4 i4 show ?thesis by simp
  qed
  from r b f show ?thesis by auto
qed

text \<open>No requested reviewer and no review: one approval is required, the status is pending.\<close>

theorem required_approvals_floor_witness:
  "requested_reviewers (prData no_reviewers) = None
   \<and> approvals (reviews no_reviewers) = 0
   \<and> requiredApprovals (prData no_reviewers) = 1
   \<and> status (fetch_github_pr no_reviewers) = Pending
   \<and> issues (fetch_github_pr no_reviewers) = [''Needs 1 more approval(s)'']
   \<and> status (fetch_github_pr_basic no_reviewers) = Pending
   \<and> issues (fetch_github_pr_basic no_reviewers) = [''Needs 1 more approval(s)'']"
  using required_approvals_floor [of no_reviewers]
  by (simp add: no_reviewers_def eval_defs)

section \<open>Issues and status\<close>

text \<open>
  C9.  The issues are empty exactly when the status is ready, and the status is ready
  exactly when none of the four statements fires; the first equivalence also holds for
  the basic variant.
\<close>

theorem issues_empty_iff_ready:
  "(issues (fetch_github_pr s) = []) = (status (fetch_github_pr s) = Ready)
   \<and> (status (fetch_github_pr s) = Ready)
       = (\<not> hasConflicts (prData s)
          \<and> \<not> approvals (reviews s) < requiredApprovals (prData s)
          \<and> failingChecks (checks (check_runs s)) = []
          \<and> \<not> draft (prData s))
   \<and> (issues (fetch_github_pr_basic s) = []) = (status (fetch_github_pr_basic s) = Ready)"
  by (simp add: fetch_github_pr_def fetch_github_pr_basic_def after_checks_def after_approvals_def
      after_conflicts_def conflicts_rule_def approvals_rule_def checks_rule_def
      checks_rule_basic_def draft_rule_def initial_def soften_def)

section \<open>The two variants\<close>

text \<open>
  C10.  When every check run has the platform status completed and the conclusion
  success or failure, the basic variant and the dashboard variant give the same status
  and the same issues.
\<close>

theorem variants_agree_on_completed:
  assumes "\<forall>c \<in> set (check_runs s). run_status c = Some ''completed''
             \<and> (run_conclusion c = Some ''success'' \<or> run_conclusion c = Some ''failure'')"
  shows "status (fetch_github_pr_basic s) = status (fetch_github_pr s)
       \<and> issues (fetch_github_pr_basic s) = issues (fetch_github_pr s)"
proof -
  let ?rs = "check_runs s"
  from completed_counts [OF assms]
  have t: "totalChecks ?rs = length ?rs"
    and p: "passingChecks ?rs + length (failingChecks (checks ?rs)) = length ?rs"
    by simp_all
  have n: "totalChecks ?rs - passingChecks ?rs = length (failingChecks (checks ?rs))"
    using t p by simp
  have g: "(0 < totalChecks ?rs \<and> passingChecks ?rs < totalChecks ?rs)
             = (0 < length (failingChecks (checks ?rs)))"
    using t p by presburger
  have c: "checks_rule_basic (passingChecks ?rs) (totalChecks ?rs) v = checks_rule (checks ?rs) v"
    for v
    unfolding checks_rule_basic_def checks_rule_def g n by simp
  have "fetch_github_pr_basic s = fetch_github_pr s"
    unfolding fetch_github_pr_basic_def fetch_github_pr_def after_checks_def
      after_approvals_def after_conflicts_def c required_approvals_variants
    by (rule refl)
  then show ?thesis by simp
qed

text \<open>One passing and two failing completed checks, one approval of two.\<close>

theorem variants_agree_on_completed_witness:
  "map run_status (check_runs all_completed)
     = [Some ''completed'', Some ''completed'', Some ''completed'']
   \<and> map run_conclusion (check_runs all_completed)
     = [Some ''success'', Some ''failure'', Some ''failure'']
   \<and> status (fetch_github_pr_basic all_completed) = NotReady
   \<and> status (fetch_github_pr all_completed) = NotReady
   \<and> issues (fetch_github_pr_basic all_completed)
       = [''Needs 1 more approval(s)'', ''2 check(s) failing'']
   \<and> issues (fetch_github_pr all_completed)
       = [''Needs 1 more approval(s)'', ''2 check(s) failing'']"
proof -
  have h: "\<forall>c \<in> set (check_runs all_completed). run_status c = Some ''completed''
             \<and> (run_conclusion c = Some ''success'' \<or> run_conclusion c = Some ''failure'')"
    by (simp add: all_completed_def completed_run_def)
  have e: "status (fetch_github_pr all_completed) = NotReady
     \<and> issues (fetch_github_pr all_completed)
         = [''Needs 1 more approval(s)'', ''2 check(s) failing'']"
    by (simp add: all_completed_def eval_defs)
  have m: "map run_status (check_runs all_completed)
     = [Some ''completed'', Some ''completed'', Some ''completed'']
   \<and> map run_conclusion (check_runs all_completed)
     = [Some ''success'', Some ''failure'', Some ''failure'']"
    by (simp add: all_completed_def completed_run_def)
  from variants_agree_on_completed [OF h] m e show ?thesis by simp
qed

end
